theory Spec2Isabelle
  imports Complex_Main "HOL-Library.Sublist" "HOL-Library.AList"
begin

section \<open>Python values, exceptions and the built-ins the agents use\<close>

text \<open>
  The agents work on plain Python dictionaries (\<^verbatim>\<open>ticket: Dict\<close>, the classification
  record, the processing log).  A dictionary is an association list: the pairs in
  insertion order, looked up with \<open>map_of\<close>, stored with \<open>AList.update\<close> (an existing
  key keeps its place, a new key goes to the end, as in Python).  A \<^verbatim>\<open>float\<close> in
  a dictionary is represented by the rational number its literal denotes; a \<^verbatim>\<open>str\<close> by
  the list of its characters, each one a code point below 256.
\<close>

datatype pyval =
    VNone
  | VBool bool
  | VInt int
  | VFloat rat
  | VStr string
  | VList "pyval list"
  | VDict "(string \<times> pyval) list"

type_synonym pydict = "(string \<times> pyval) list"

text \<open>
  Exceptions are values.  \<open>Exception msg\<close> stands for any exception raised by a
  collaborator outside this code (a network failure, a time-out, an agent that breaks);
  the others are the ones the Python run time raises in the modelled code.
\<close>

datatype exn =
    KeyError string
  | AttributeError string string
  | ValueError string
  | TypeError string
  | Exception string

fun py_bind :: "exn + 'a \<Rightarrow> ('a \<Rightarrow> exn + 'b) \<Rightarrow> exn + 'b" where
  "py_bind (Inl e) f = Inl e"
| "py_bind (Inr x) f = f x"

definition quoted :: "string \<Rightarrow> string" where
  "quoted s = [CHR 0x27] @ s @ [CHR 0x27]"

text \<open>
  \<^verbatim>\<open>repr(s)\<close> of a string.  The quote is the apostrophe, or the double quote when the
  string holds an apostrophe and no double quote.  A backslash and the chosen quote are
  escaped with a backslash; tab, line feed and carriage return are written \<^verbatim>\<open>\t\<close>,
  \<^verbatim>\<open>\n\<close>, \<^verbatim>\<open>\r\<close>; any other character that is not printable (a control character;
  beyond ASCII, the codes 128 to 160 and 173) is written \<^verbatim>\<open>\x\<close> and its two
  hexadecimal digits.
\<close>

definition hex_digit :: "nat \<Rightarrow> char" where
  "hex_digit d = ''0123456789abcdef'' ! (d mod 16)"

definition printable :: "char \<Rightarrow> bool" where
  "printable c =
     (let n = (of_char c :: nat)
      in 32 \<le> n \<and> n \<noteq> 127 \<and> \<not> (128 \<le> n \<and> n \<le> 160) \<and> n \<noteq> 173)"

definition repr_char :: "char \<Rightarrow> char \<Rightarrow> string" where
  "repr_char q c =
     (if c = q \<or> c = CHR 0x5C then [CHR 0x5C, c]
      else if c = CHR 0x09 then [CHR 0x5C, CHR ''t'']
      else if c = CHR 0x0A then [CHR 0x5C, CHR ''n'']
      else if c = CHR 0x0D then [CHR 0x5C, CHR ''r'']
      else if printable c then [c]
      else [CHR 0x5C, CHR ''x'', hex_digit ((of_char c :: nat) div 16), hex_digit (of_char c :: nat)])"

definition py_repr :: "string \<Rightarrow> string" where
  "py_repr s =
     (let q = (if CHR 0x27 \<in> set s \<and> CHR 0x22 \<notin> set s then CHR 0x22 else CHR 0x27)
      in [q] @ concat (map (repr_char q) s) @ [q])"

text \<open>
  \<^verbatim>\<open>str(e)\<close>: the message; for \<^verbatim>\<open>KeyError(k)\<close> it is \<^verbatim>\<open>repr(k)\<close>.  The names of types
  and attributes hold no quote, so plain quoting writes them.
\<close>

fun str_exn :: "exn \<Rightarrow> string" where
  "str_exn (KeyError k) = py_repr k"
| "str_exn (AttributeError ty a) = quoted ty @ '' object has no attribute '' @ quoted a"
| "str_exn (ValueError msg) = msg"
| "str_exn (TypeError msg) = msg"
| "str_exn (Exception msg) = msg"

fun type_name :: "pyval \<Rightarrow> string" where
  "type_name VNone = ''NoneType''"
| "type_name (VBool b) = ''bool''"
| "type_name (VInt i) = ''int''"
| "type_name (VFloat r) = ''float''"
| "type_name (VStr s) = ''str''"
| "type_name (VList xs) = ''list''"
| "type_name (VDict d) = ''dict''"

text \<open>\<^verbatim>\<open>d[k]\<close> raises \<^verbatim>\<open>KeyError\<close> on a missing key; \<^verbatim>\<open>d.get(k, default)\<close> does not.\<close>

definition py_getitem :: "pydict \<Rightarrow> string \<Rightarrow> exn + pyval" where
  "py_getitem d k = (case map_of d k of None \<Rightarrow> Inl (KeyError k) | Some v \<Rightarrow> Inr v)"

definition py_get :: "pydict \<Rightarrow> string \<Rightarrow> pyval \<Rightarrow> pyval" where
  "py_get d k dflt = (case map_of d k of None \<Rightarrow> dflt | Some v \<Rightarrow> v)"

text \<open>\<^verbatim>\<open>v.get(k, default)\<close> on a value that need not be a dictionary.\<close>

fun py_get_method :: "pyval \<Rightarrow> string \<Rightarrow> pyval \<Rightarrow> exn + pyval" where
  "py_get_method (VDict d) k dflt = Inr (py_get d k dflt)"
| "py_get_method v k dflt = Inl (AttributeError (type_name v) ''get'')"

definition py_keys :: "pydict \<Rightarrow> string list" where
  "py_keys d = map fst d"

text \<open>
  \<^verbatim>\<open>s.lower()\<close>: among the characters below 256 the capital letters are A to Z and the
  codes 192 to 222 except 215, and the small letter is 32 further on.  A value that is not
  a string has no such method.
\<close>

definition lower_char :: "char \<Rightarrow> char" where
  "lower_char c =
     (let n = (of_char c :: nat)
      in if (65 \<le> n \<and> n \<le> 90) \<or> (192 \<le> n \<and> n \<le> 222 \<and> n \<noteq> 215)
         then char_of (n + 32) else c)"

definition str_lower :: "string \<Rightarrow> string" where
  "str_lower s = map lower_char s"

fun py_lower :: "pyval \<Rightarrow> exn + string" where
  "py_lower (VStr s) = Inr (str_lower s)"
| "py_lower v = Inl (AttributeError (type_name v) ''lower'')"

text \<open>\<^verbatim>\<open>word in text\<close> on strings is the contiguous-substring test, \<open>sublist word text\<close>.\<close>

definition py_any_in :: "string list \<Rightarrow> string \<Rightarrow> bool" where
  "py_any_in words text = list_ex (\<lambda>word. sublist word text) words"

text \<open>\<^verbatim>\<open>s.find(c)\<close> and \<^verbatim>\<open>s.rfind(c)\<close> for a single character: the index, or -1.\<close>

definition py_find :: "string \<Rightarrow> char \<Rightarrow> int" where
  "py_find s c =
     (if c \<in> set s then int (length (takeWhile (\<lambda>x. x \<noteq> c) s)) else - 1)"

definition py_rfind :: "string \<Rightarrow> char \<Rightarrow> int" where
  "py_rfind s c =
     (if c \<in> set s
      then int (length s) - 1 - int (length (takeWhile (\<lambda>x. x \<noteq> c) (rev s)))
      else - 1)"

text \<open>\<^verbatim>\<open>s[start:end]\<close> for \<open>0 \<le> start\<close> and \<open>0 \<le> end\<close>.\<close>

definition py_slice :: "string \<Rightarrow> int \<Rightarrow> int \<Rightarrow> string" where
  "py_slice s start end = drop (nat start) (take (nat end) s)"

subsection \<open>Numbers as text\<close>

definition digit_char :: "nat \<Rightarrow> char" where
  "digit_char d = char_of (48 + d)"

function string_of_nat :: "nat \<Rightarrow> string" where
  "string_of_nat n =
     (if n < 10 then [digit_char n] else string_of_nat (n div 10) @ [digit_char (n mod 10)])"
  by pat_completeness auto
termination
  by (relation "measure id") auto

declare string_of_nat.simps [simp del]

definition round_half_even :: "rat \<Rightarrow> int" where
  "round_half_even r =
     (let n = \<lfloor>r\<rfloor>; f = r - of_int n
      in if f < 1 / 2 then n else if 1 / 2 < f then n + 1 else if even n then n else n + 1)"

text \<open>
  \<^verbatim>\<open>f"{x:.1f}"\<close> for a finite double \<open>x\<close>, given as the rational number it is (the
  difference of two clock readings is finite and never the negative zero).  Python writes
  the decimal nearest to that number with one digit after the point, a tie going to the
  even digit, and keeps the sign of a negative number that rounds to zero.
\<close>

definition fmt_1f :: "rat \<Rightarrow> string" where
  "fmt_1f r =
     (let t = nat (round_half_even (\<bar>r\<bar> * 10))
      in (if r < 0 then ''-'' else []) @ string_of_nat (t div 10) @ ''.'' @ string_of_nat (t mod 10))"


section \<open>Triage agent: \<^verbatim>\<open>agents/triage-agent/azure_integration.py\<close>\<close>

text \<open>
  What the completion service returned: the text of \<^verbatim>\<open>response.choices[0].message.content\<close>
  (a string, or \<^verbatim>\<open>None\<close>) and the three counters of \<^verbatim>\<open>response.usage\<close>.
\<close>

record completion =
  content :: pyval
  prompt_tokens :: pyval
  completion_tokens :: pyval
  total_tokens :: pyval

text \<open>The dictionary \<^verbatim>\<open>_parse_classification_response\<close> returns from its handler.\<close>

definition parse_error_classification :: pydict where
  "parse_error_classification =
     [(''agent'', VStr ''Escalation''),
      (''category'', VStr ''Unknown''),
      (''priority'', VStr ''Medium''),
      (''confidence'', VFloat (8 / 10)),
      (''resolution_time'', VStr ''120s''),
      (''reasoning'', VStr ''Fallback classification due to parsing error'')]"

text \<open>
  \<^verbatim>\<open>_parse_classification_response\<close>.  \<open>json_loads\<close> is \<^verbatim>\<open>json.loads\<close> of the standard
  library, a parameter.  The whole body is inside \<^verbatim>\<open>try ... except Exception\<close>, so the
  function never raises: no brace span, a span that does not parse, and a response that is
  not a string (\<^verbatim>\<open>None.find\<close>) all give the handler's dictionary.
\<close>

fun parse_classification_response :: "(string \<Rightarrow> exn + pyval) \<Rightarrow> pyval \<Rightarrow> pyval" where
  "parse_classification_response json_loads (VStr response) =
     (let start = py_find response CHR ''{'';
          end = py_rfind response CHR ''}'' + 1
      in if start \<ge> 0 \<and> end > start
         then (case json_loads (py_slice response start end) of
                 Inr v \<Rightarrow> v
               | Inl e \<Rightarrow> VDict parse_error_classification)
         else VDict parse_error_classification)"
| "parse_classification_response json_loads v = VDict parse_error_classification"

text \<open>The \<^verbatim>\<open>if/elif\<close> chain of \<^verbatim>\<open>_fallback_classification\<close>: agent and resolution time.\<close>

definition fallback_rule :: "string \<Rightarrow> string \<times> string" where
  "fallback_rule text =
     (if py_any_in [''how'', ''guide'', ''documentation'', ''configure''] text
        then (''Knowledge'', ''30s'')
      else if py_any_in [''deploy'', ''automation'', ''workflow'', ''pipeline''] text
        then (''Automation'', ''60s'')
      else if py_any_in [''security'', ''vulnerability'', ''critical'', ''urgent''] text
        then (''Escalation'', ''90s'')
      else if py_any_in [''report'', ''analytics'', ''dashboard'', ''metrics''] text
        then (''Analytics'', ''45s'')
      else (''Escalation'', ''120s''))"

text \<open>
  \<^verbatim>\<open>_fallback_classification\<close>.  It is called from the handler of \<^verbatim>\<open>classify_ticket\<close>, so
  what it raises (a ticket without title, description or id; a title that is no string)
  leaves \<^verbatim>\<open>classify_ticket\<close> as an exception.
\<close>

definition fallback_classification :: "pydict \<Rightarrow> exn + pydict" where
  "fallback_classification ticket =
     py_bind (py_getitem ticket ''title'') (\<lambda>title.
     py_bind (py_lower title) (\<lambda>title_lower.
     py_bind (py_getitem ticket ''description'') (\<lambda>description.
     py_bind (py_lower description) (\<lambda>desc_lower.
       (let (agent, resolution_time) = fallback_rule (title_lower @ desc_lower) in
        py_bind (py_getitem ticket ''id'') (\<lambda>ticket_id.
          Inr [(''ticket_id'', ticket_id),
               (''classification'', VDict
                  [(''agent'', VStr agent),
                   (''category'', py_get ticket ''category'' (VStr ''General'')),
                   (''priority'', py_get ticket ''priority'' (VStr ''Medium'')),
                   (''confidence'', VFloat (85 / 100)),
                   (''resolution_time'', VStr resolution_time),
                   (''reasoning'', VStr ''Fallback rule-based classification'')]),
               (''assigned_agent'', VStr agent),
               (''processing_time'', VStr ''1.2s''),
               (''azure_service'', VStr ''Fallback (Local Rules)'')]))))))"

text \<open>
  \<^verbatim>\<open>classify_ticket\<close>.  Parameters for what lies outside the code:
  \<^item> \<open>create\<close>: lines 44 to 59, building the prompt from the ticket and calling the
    completion service; \<open>Inl\<close> is any exception raised there (no client, a missing
    configuration key, the network, a time-out, a response without choices or usage);
  \<^item> \<open>json_loads\<close>: \<^verbatim>\<open>json.loads\<close>;
  \<^item> \<open>elapsed\<close>: the seconds measured by the two \<^verbatim>\<open>time.time()\<close> calls;
  \<^item> \<open>model\<close>: the text of \<^verbatim>\<open>self.config['azure_services']['openai']['model']\<close>, or the
    \<^verbatim>\<open>KeyError\<close> of a configuration without it.
  Every exception of the \<^verbatim>\<open>try\<close> block goes to the one handler, which returns
  \<^verbatim>\<open>_fallback_classification(ticket)\<close>.
\<close>

text \<open>The statements of the \<^verbatim>\<open>try\<close> block after the call: lines 61 to 78.\<close>

definition classify_primary ::
  "(string \<Rightarrow> exn + pyval) \<Rightarrow> rat \<Rightarrow> exn + string \<Rightarrow> completion \<Rightarrow> pydict \<Rightarrow> exn + pydict" where
  "classify_primary json_loads elapsed model response ticket =
     (let classification = parse_classification_response json_loads (content response) in
      py_bind (py_getitem ticket ''id'') (\<lambda>ticket_id.
      py_bind (py_get_method classification ''confidence'' (VFloat (95 / 100))) (\<lambda>confidence.
      py_bind (py_get_method classification ''agent'' (VStr ''Escalation'')) (\<lambda>assigned_agent.
      py_bind (py_get_method classification ''priority''
                 (py_get ticket ''priority'' (VStr ''Medium''))) (\<lambda>priority.
      py_bind (py_get_method classification ''resolution_time'' (VStr ''120s'')) (\<lambda>resolution_time.
      py_bind model (\<lambda>model_name.
        Inr [(''ticket_id'', ticket_id),
             (''classification'', classification),
             (''confidence'', confidence),
             (''assigned_agent'', assigned_agent),
             (''priority'', priority),
             (''estimated_resolution_time'', resolution_time),
             (''processing_time'', VStr (fmt_1f elapsed @ ''s'')),
             (''azure_service'', VStr (''Azure OpenAI '' @ model_name)),
             (''token_usage'', VDict
                [(''prompt_tokens'', prompt_tokens response),
                 (''completion_tokens'', completion_tokens response),
                 (''total_tokens'', total_tokens response)])])))))))"

definition classify_ticket ::
  "(pydict \<Rightarrow> exn + completion) \<Rightarrow> (string \<Rightarrow> exn + pyval) \<Rightarrow> rat \<Rightarrow> exn + string
     \<Rightarrow> pydict \<Rightarrow> exn + pydict" where
  "classify_ticket create json_loads elapsed model ticket =
     (case create ticket of
        Inl e \<Rightarrow> fallback_classification ticket
      | Inr response \<Rightarrow>
          (case classify_primary json_loads elapsed model response ticket of
             Inl e \<Rightarrow> fallback_classification ticket
           | Inr result \<Rightarrow> Inr result))"

section \<open>Knowledge agent: \<^verbatim>\<open>agents/knowledge-agent/azure_integration.py\<close>\<close>

definition technical_terms :: "string list" where
  "technical_terms =
     [''ssl'', ''https'', ''certificate'', ''deployment'', ''configuration'',
      ''database'', ''api'', ''authentication'', ''caching'', ''redis'',
      ''performance'', ''timeout'', ''error'', ''security'', ''vulnerability'']"

text \<open>\<^verbatim>\<open>_extract_key_terms\<close>: the comprehension keeps the order of the vocabulary.\<close>

definition extract_key_terms :: "pyval \<Rightarrow> exn + string list" where
  "extract_key_terms text =
     py_bind (py_lower text) (\<lambda>text_lower.
       Inr (take 5 (filter (\<lambda>term. sublist term text_lower) technical_terms)))"

text \<open>\<^verbatim>\<open>sep.join(parts)\<close> on strings.\<close>

fun str_join :: "string \<Rightarrow> string list \<Rightarrow> string" where
  "str_join sep [] = []"
| "str_join sep [x] = x"
| "str_join sep (x # y # ys) = x @ sep @ str_join sep (y # ys)"

text \<open>
  \<^verbatim>\<open>_build_search_query\<close>.  The extracted terms are strings, so \<^verbatim>\<open>" ".join\<close> raises
  \<^verbatim>\<open>TypeError\<close> exactly when the title is not one.
\<close>

definition build_search_query :: "pydict \<Rightarrow> exn + string" where
  "build_search_query ticket =
     py_bind (py_getitem ticket ''title'') (\<lambda>title.
     py_bind (py_getitem ticket ''description'') (\<lambda>description.
     py_bind (extract_key_terms description) (\<lambda>key_terms.
       (case title of
          VStr t \<Rightarrow> Inr (str_join '' '' (t # key_terms))
        | _ \<Rightarrow> Inl (TypeError (''sequence item 0: expected str instance, ''
                      @ type_name title @ '' found''))))))"

definition mock_knowledge :: "(string \<times> pydict) list" where
  "mock_knowledge =
     [(''ssl'',
         [(''title'', VStr ''SSL Certificate Configuration Guide''),
          (''content'', VStr ''Step-by-step guide for configuring SSL certificates with Azure Key Vault integration...''),
          (''category'', VStr ''Security'')]),
      (''deployment'',
         [(''title'', VStr ''Deployment Troubleshooting Guide''),
          (''content'', VStr ''Common deployment issues and solutions for Azure Container Apps...''),
          (''category'', VStr ''Technical'')]),
      (''database'',
         [(''title'', VStr ''Database Performance Optimization''),
          (''content'', VStr ''Best practices for optimizing database connections and query performance...''),
          (''category'', VStr ''Performance'')])]"

definition general_support :: pydict where
  "general_support =
     [(''title'', VStr ''General Support Guide''),
      (''content'', VStr ''General troubleshooting steps and support resources...''),
      (''category'', VStr ''General'')]"

text \<open>
  \<^verbatim>\<open>_fallback_search\<close>: the first entry of \<^verbatim>\<open>mock_knowledge\<close>, in insertion order,
  whose key occurs in the lower-cased title followed by the lower-cased description.
\<close>

definition fallback_search :: "pydict \<Rightarrow> exn + pydict" where
  "fallback_search ticket =
     py_bind (py_getitem ticket ''title'') (\<lambda>title.
     py_bind (py_lower title) (\<lambda>title_lower.
     py_bind (py_getitem ticket ''description'') (\<lambda>description.
     py_bind (py_lower description) (\<lambda>desc_lower.
       (let best_match =
              (case find (\<lambda>(key, knowledge). sublist key (title_lower @ desc_lower)) mock_knowledge of
                 Some (key, knowledge) \<Rightarrow> knowledge
               | None \<Rightarrow> general_support) in
        py_bind (py_getitem ticket ''id'') (\<lambda>ticket_id.
          Inr [(''ticket_id'', ticket_id),
               (''search_query'', title),
               (''results_found'', VInt 1),
               (''best_match'', VDict best_match),
               (''relevance_score'', VFloat (85 / 100)),
               (''processing_time'', VStr ''0.8s''),
               (''azure_service'', VStr ''Fallback (Local)'')]))))))"

text \<open>The item built in the \<^verbatim>\<open>async for\<close> loop from one search result.\<close>

definition knowledge_item :: "pydict \<Rightarrow> pydict" where
  "knowledge_item result =
     [(''id'', py_get result ''id'' VNone),
      (''title'', py_get result ''title'' VNone),
      (''content'', py_get result ''content'' VNone),
      (''category'', py_get result ''category'' VNone),
      (''relevance_score'', py_get result ''@search.score'' (VFloat 0))]"

text \<open>
  \<^verbatim>\<open>search_knowledge\<close>.  \<open>search\<close> is the search service: it gets the query and gives the
  results the loop receives, or \<open>Inl\<close> for an exception raised by the call or while the
  results are read (no client, a missing configuration key, the network).
\<close>

definition search_primary :: "(string \<Rightarrow> exn + pydict list) \<Rightarrow> pydict \<Rightarrow> exn + pydict" where
  "search_primary search ticket =
     py_bind (build_search_query ticket) (\<lambda>query.
     py_bind (search query) (\<lambda>results.
       (let knowledge_items = map knowledge_item results;
            best_match = (case knowledge_items of [] \<Rightarrow> VNone | item # rest \<Rightarrow> VDict item) in
        py_bind (py_getitem ticket ''id'') (\<lambda>ticket_id.
          Inr [(''ticket_id'', ticket_id),
               (''search_query'', VStr query),
               (''results_found'', VInt (int (length knowledge_items))),
               (''best_match'', best_match),
               (''all_results'', VList (map VDict knowledge_items)),
               (''relevance_score'',
                  (case knowledge_items of
                     [] \<Rightarrow> VFloat 0
                   | item # rest \<Rightarrow> py_get item ''relevance_score'' VNone)),
               (''processing_time'', VStr ''1.8s''),
               (''azure_service'', VStr ''AI Search Semantic'')]))))"

definition search_knowledge :: "(string \<Rightarrow> exn + pydict list) \<Rightarrow> pydict \<Rightarrow> exn + pydict" where
  "search_knowledge search ticket =
     (case search_primary search ticket of
        Inl e \<Rightarrow> fallback_search ticket
      | Inr result \<Rightarrow> Inr result)"

section \<open>Coordinator: \<^verbatim>\<open>shared/service_bus_coordinator.py\<close>\<close>



text \<open>One entry of \<^verbatim>\<open>processing_log["steps"]\<close>, and the log itself.\<close>

record step =
  agent :: string
  duration :: pyval
  result :: pyval

record processing_log =
  ticket_id :: pyval
  start_time :: string
  steps :: "step list"
  total_time :: pyval
  status :: string
  end_time :: "string option"
  error :: "string option"






text \<open>The handler of \<^verbatim>\<open>coordinate_ticket_processing\<close>: the log as it is when the exception comes.\<close>

definition failed :: "processing_log \<Rightarrow> exn \<Rightarrow> processing_log" where
  "failed plog e = plog\<lparr>status := ''failed'', error := Some (str_exn e)\<rparr>"


section \<open>Inputs and reference definitions for the properties\<close>

text \<open>\<^verbatim>\<open>r[k]\<close> on the outcome of a call: the exception of the call, or of the lookup.\<close>

definition result_item :: "exn + pydict \<Rightarrow> string \<Rightarrow> exn + pyval" where
  "result_item r k = py_bind r (\<lambda>d. py_getitem d k)"

text \<open>The ticket of scenario A.\<close>

definition ticket_A :: pydict where
  "ticket_A = [(''id'', VStr ''TKT-A''), (''title'', VStr ''How do I configure SSL?''),
     (''description'', VStr ''need documentation for certificate setup'')]"

text \<open>
  The classification policy in the words of the specification: the keyword sets in their
  fixed order of priority, the first set with a word occurring in title+description,
  capitals and small letters taken as the same, wins, and Escalation is the default.
\<close>

definition keyword_rules :: "(string list \<times> string) list" where
  "keyword_rules =
     [([''how'', ''guide'', ''documentation'', ''configure''], ''Knowledge''),
      ([''deploy'', ''automation'', ''workflow'', ''pipeline''], ''Automation''),
      ([''security'', ''vulnerability'', ''critical'', ''urgent''], ''Escalation''),
      ([''report'', ''analytics'', ''dashboard'', ''metrics''], ''Analytics'')]"

definition letter_pairs :: "(char \<times> char) list" where
  "letter_pairs = zip ''abcdefghijklmnopqrstuvwxyz'' ''ABCDEFGHIJKLMNOPQRSTUVWXYZ''"

text \<open>A letter of a keyword matches itself and its capital.\<close>

definition same_letter :: "char \<Rightarrow> char \<Rightarrow> bool" where
  "same_letter k c = (c = k \<or> (k, c) \<in> set letter_pairs)"

fun occurs_at_start :: "string \<Rightarrow> string \<Rightarrow> bool" where
  "occurs_at_start [] text = True"
| "occurs_at_start (k # ks) [] = False"
| "occurs_at_start (k # ks) (c # cs) = (same_letter k c \<and> occurs_at_start ks cs)"

fun occurs_ignoring_case :: "string \<Rightarrow> string \<Rightarrow> bool" where
  "occurs_ignoring_case keyword [] = (keyword = [])"
| "occurs_ignoring_case keyword (c # cs) =
     (occurs_at_start keyword (c # cs) \<or> occurs_ignoring_case keyword cs)"

definition spec_fallback_agent :: "string \<Rightarrow> string \<Rightarrow> string" where
  "spec_fallback_agent title description =
     (case find (\<lambda>(keywords, agent_name).
                   list_ex (\<lambda>k. occurs_ignoring_case k (title @ description)) keywords)
             keyword_rules of
        Some (keywords, agent_name) \<Rightarrow> agent_name
      | None \<Rightarrow> ''Escalation'')"

text \<open>A ticket whose keywords are in capitals.\<close>

definition ticket_G :: pydict where
  "ticket_G = [(''id'', VStr ''TKT-G''), (''title'', VStr ''DEPLOY failed again''),
     (''description'', VStr ''The Pipeline stops at the second stage'')]"

text \<open>Completion services for the examples: one that raises, one that answers in prose, one whose JSON object has the agent only; and what \<^verbatim>\<open>json.loads\<close> does on those answers.\<close>

definition create_raises :: "pydict \<Rightarrow> exn + completion" where
  "create_raises ticket = Inl (Exception ''Connection error.'')"

definition create_plain_text :: "pydict \<Rightarrow> exn + completion" where
  "create_plain_text ticket =
     Inr \<lparr>content = VStr ''I am unable to classify this ticket.'',
          prompt_tokens = VInt 212, completion_tokens = VInt 9, total_tokens = VInt 221\<rparr>"

definition json_loads_reject :: "string \<Rightarrow> exn + pyval" where
  "json_loads_reject s = Inl (ValueError ''Expecting value: line 1 column 1 (char 0)'')"

definition create_agent_only :: "pydict \<Rightarrow> exn + completion" where
  \<open>create_agent_only ticket =
     Inr \<lparr>content = VStr ''{"agent": "Knowledge"}'',
          prompt_tokens = VInt 212, completion_tokens = VInt 8, total_tokens = VInt 220\<rparr>\<close>

definition json_loads_agent_only :: "string \<Rightarrow> exn + pyval" where
  \<open>json_loads_agent_only s =
     (if s = ''{"agent": "Knowledge"}'' then Inr (VDict [(''agent'', VStr ''Knowledge'')])
      else Inl (ValueError ''Expecting value: line 1 column 1 (char 0)''))\<close>

text \<open>
  A response without parseable JSON, as \<^verbatim>\<open>_parse_classification_response\<close> decides it: no \<^verbatim>\<open>{\<close>
  followed by a later \<^verbatim>\<open>}\<close>, or a span from the first \<^verbatim>\<open>{\<close> to the last \<^verbatim>\<open>}\<close> that
  \<^verbatim>\<open>json.loads\<close> rejects.
\<close>

definition no_parseable_json :: "(string \<Rightarrow> exn + pyval) \<Rightarrow> string \<Rightarrow> bool" where
  "no_parseable_json json_loads response =
     (let start = py_find response CHR ''{'';
          end = py_rfind response CHR ''}'' + 1
      in if start \<ge> 0 \<and> end > start then isl (json_loads (py_slice response start end)) else True)"

text \<open>The keys of the two records \<^verbatim>\<open>classify_ticket\<close> can return.\<close>

definition primary_keys :: "string list" where
  "primary_keys = [''ticket_id'', ''classification'', ''confidence'', ''assigned_agent'', ''priority'',
     ''estimated_resolution_time'', ''processing_time'', ''azure_service'', ''token_usage'']"

definition fallback_keys :: "string list" where
  "fallback_keys = [''ticket_id'', ''classification'', ''assigned_agent'', ''processing_time'', ''azure_service'']"

definition primary_only_keys :: "string list" where
  "primary_only_keys = [''confidence'', ''priority'', ''estimated_resolution_time'', ''token_usage'']"

text \<open>The vocabulary as the specification lists it.\<close>

definition spec_vocabulary :: "string list" where
  "spec_vocabulary =
     [''ssl'', ''https'', ''certificate'', ''deployment'', ''configuration'', ''database'',
      ''api'', ''authentication'', ''caching'', ''redis'', ''performance'', ''timeout'',
      ''error'', ''security'', ''vulnerability'']"

text \<open>Scenario C, a description without any word of the vocabulary; a description with three of them, in another order than the vocabulary; one with more than five; a search that finds nothing.\<close>

definition ticket_C :: pydict where
  "ticket_C = [(''id'', VStr ''TKT-C''), (''title'', VStr ''Printer is jammed''),
     (''description'', VStr ''The office printer on floor 2 keeps jamming'')]"



definition search_empty :: "string \<Rightarrow> exn + pydict list" where
  "search_empty query = Inr []"













section \<open>Properties of the triage agent\<close>

lemma py_bind_Inr_iff: "py_bind m f = Inr y \<longleftrightarrow> (\<exists>x. m = Inr x \<and> f x = Inr y)"
  by (cases m) auto

lemma py_bind_Inl_iff: "py_bind m f = Inl e \<longleftrightarrow> (m = Inl e \<or> (\<exists>x. m = Inr x \<and> f x = Inl e))"
  by (cases m) auto

lemma py_lower_Inr_iff: "py_lower v = Inr s \<longleftrightarrow> (\<exists>t. v = VStr t \<and> s = str_lower t)"
  by (cases v) auto

lemma py_get_method_Inr_iff:
  "py_get_method v k dflt = Inr x \<longleftrightarrow> (\<exists>d. v = VDict d \<and> x = py_get d k dflt)"
  by (cases v) auto

subsection \<open>Lower-casing and matching without regard to case\<close>

lemma lower_char_letter:
  assumes "97 \<le> (of_char k :: nat)" "(of_char k :: nat) \<le> 122"
  shows "lower_char c = k \<longleftrightarrow> (c = k \<or> (of_char c :: nat) + 32 = of_char k)"
proof (cases "(65 \<le> (of_char c :: nat) \<and> (of_char c :: nat) \<le> 90)
      \<or> (192 \<le> (of_char c :: nat) \<and> (of_char c :: nat) \<le> 222 \<and> (of_char c :: nat) \<noteq> 215)")
  case True
  then have "lower_char c = char_of ((of_char c :: nat) + 32)"
    by (simp add: lower_char_def Let_def)
  moreover have "(of_char (char_of ((of_char c :: nat) + 32) :: char) :: nat) = of_char c + 32"
    using True by auto
  ultimately have "lower_char c = k \<longleftrightarrow> (of_char c :: nat) + 32 = of_char k"
    by (metis of_char_eq_iff)
  moreover from True assms have "c \<noteq> k" by auto
  ultimately show ?thesis by simp
next
  case False
  then have "lower_char c = c" by (auto simp add: lower_char_def Let_def)
  moreover from False assms have "(of_char c :: nat) + 32 \<noteq> of_char k" by auto
  ultimately show ?thesis by auto
qed

lemma small_letter_cases:
  assumes "k \<in> set ''abcdefghijklmnopqrstuvwxyz''"
  shows "k = CHR ''a'' \<or> k = CHR ''b'' \<or> k = CHR ''c'' \<or> k = CHR ''d'' \<or> k = CHR ''e'' \<or> k = CHR ''f'' \<or> k = CHR ''g'' \<or> k = CHR ''h'' \<or> k = CHR ''i'' \<or> k = CHR ''j'' \<or> k = CHR ''k'' \<or> k = CHR ''l'' \<or> k = CHR ''m'' \<or> k = CHR ''n'' \<or> k = CHR ''o'' \<or> k = CHR ''p'' \<or> k = CHR ''q'' \<or> k = CHR ''r'' \<or> k = CHR ''s'' \<or> k = CHR ''t'' \<or> k = CHR ''u'' \<or> k = CHR ''v'' \<or> k = CHR ''w'' \<or> k = CHR ''x'' \<or> k = CHR ''y'' \<or> k = CHR ''z''"
  using assms by simp

lemma letter_pairs_iff:
  assumes "k \<in> set ''abcdefghijklmnopqrstuvwxyz''"
  shows "(k, c) \<in> set letter_pairs \<longleftrightarrow> (of_char c :: nat) + 32 = of_char k"
proof -
  have eq: "c = d \<longleftrightarrow> (of_char c :: nat) = of_char d" for d :: char
    by simp
  from small_letter_cases [OF assms] show ?thesis
    by (elim disjE) (simp_all add: letter_pairs_def eq del: of_char_eq_iff)
qed

lemma small_letter_code:
  assumes "k \<in> set ''abcdefghijklmnopqrstuvwxyz''"
  shows "97 \<le> (of_char k :: nat) \<and> (of_char k :: nat) \<le> 122"
  using small_letter_cases [OF assms] by (elim disjE) simp_all

lemma lower_char_same_letter:
  assumes "k \<in> set ''abcdefghijklmnopqrstuvwxyz''"
  shows "lower_char c = k \<longleftrightarrow> same_letter k c"
  using lower_char_letter [of k c] small_letter_code [OF assms] letter_pairs_iff [OF assms, of c]
  by (simp add: same_letter_def)

lemma prefix_lower_iff:
  assumes "set keyword \<subseteq> set ''abcdefghijklmnopqrstuvwxyz''"
  shows "prefix keyword (map lower_char hay) \<longleftrightarrow> occurs_at_start keyword hay"
  using assms
proof (induction keyword hay rule: occurs_at_start.induct)
  case (1 hay)
  then show ?case by simp
next
  case (2 k ks)
  then show ?case by simp
next
  case (3 k ks c cs)
  then have k: "k \<in> set ''abcdefghijklmnopqrstuvwxyz''"
    and ks: "set ks \<subseteq> set ''abcdefghijklmnopqrstuvwxyz''" by auto
  from "3.IH" [OF ks] lower_char_same_letter [OF k, of c] show ?case
    by auto
qed

lemma sublist_lower_iff:
  assumes "set keyword \<subseteq> set ''abcdefghijklmnopqrstuvwxyz''"
  shows "sublist keyword (str_lower hay) \<longleftrightarrow> occurs_ignoring_case keyword hay"
proof (induction hay)
  case Nil
  then show ?case by (simp add: str_lower_def)
next
  case (Cons c cs)
  then show ?case
    using prefix_lower_iff [OF assms, of "c # cs"]
    by (simp add: str_lower_def sublist_Cons_right)
qed

subsection \<open>The rule-based fallback\<close>

lemma fallback_rule_agent:
  "fst (fallback_rule text) \<in> {''Knowledge'', ''Automation'', ''Escalation'', ''Analytics''}"
  by (simp add: fallback_rule_def)

lemma fallback_classification_wf:
  assumes "py_getitem ticket ''title'' = Inr (VStr title)"
    and "py_getitem ticket ''description'' = Inr (VStr description)"
    and "py_getitem ticket ''id'' = Inr tid"
  shows "fallback_classification ticket =
     Inr [(''ticket_id'', tid),
          (''classification'', VDict
             [(''agent'', VStr (fst (fallback_rule (str_lower title @ str_lower description)))),
              (''category'', py_get ticket ''category'' (VStr ''General'')),
              (''priority'', py_get ticket ''priority'' (VStr ''Medium'')),
              (''confidence'', VFloat (85 / 100)),
              (''resolution_time'', VStr (snd (fallback_rule (str_lower title @ str_lower description)))),
              (''reasoning'', VStr ''Fallback rule-based classification'')]),
          (''assigned_agent'', VStr (fst (fallback_rule (str_lower title @ str_lower description)))),
          (''processing_time'', VStr ''1.2s''),
          (''azure_service'', VStr ''Fallback (Local Rules)'')]"
  using assms by (simp add: fallback_classification_def split_beta)

lemma fallback_classification_Inr:
  assumes "fallback_classification ticket = Inr r"
  shows "\<exists>title description tid. py_getitem ticket ''title'' = Inr (VStr title)
     \<and> py_getitem ticket ''description'' = Inr (VStr description)
     \<and> py_getitem ticket ''id'' = Inr tid"
  using assms
  by (auto simp add: fallback_classification_def split_beta py_bind_Inr_iff py_lower_Inr_iff)

lemma keyword_letters:
  assumes "k \<in> set (concat (map fst keyword_rules))"
  shows "set k \<subseteq> set ''abcdefghijklmnopqrstuvwxyz''"
  using assms by (auto simp add: keyword_rules_def)

lemma keyword_occurs:
  assumes "k \<in> set (concat (map fst keyword_rules))"
  shows "sublist k (str_lower title @ str_lower description)
           \<longleftrightarrow> occurs_ignoring_case k (title @ description)"
proof -
  have "str_lower title @ str_lower description = str_lower (title @ description)"
    by (simp add: str_lower_def)
  then show ?thesis
    using sublist_lower_iff [OF keyword_letters [OF assms]] by simp
qed

lemma fallback_rule_spec:
  "fst (fallback_rule (str_lower title @ str_lower description)) = spec_fallback_agent title description"
proof -
  have k: "sublist k (str_lower title @ str_lower description)
             \<longleftrightarrow> occurs_ignoring_case k (title @ description)"
    if "k \<in> set [''how'', ''guide'', ''documentation'', ''configure'',
                  ''deploy'', ''automation'', ''workflow'', ''pipeline'',
                  ''security'', ''vulnerability'', ''critical'', ''urgent'',
                  ''report'', ''analytics'', ''dashboard'', ''metrics'']" for k
    using that by (intro keyword_occurs) (simp add: keyword_rules_def)
  show ?thesis
    by (simp add: fallback_rule_def spec_fallback_agent_def keyword_rules_def py_any_in_def k)
qed

lemma ticket_A_items:
  "py_getitem ticket_A ''title'' = Inr (VStr ''How do I configure SSL?'')"
  "py_getitem ticket_A ''description'' = Inr (VStr ''need documentation for certificate setup'')"
  "py_getitem ticket_A ''id'' = Inr (VStr ''TKT-A'')"
  by (simp_all add: ticket_A_def py_getitem_def)

lemma scenario_A_rule:
  "fallback_rule (str_lower ''How do I configure SSL?''
             @ str_lower ''need documentation for certificate setup'') = (''Knowledge'', ''30s'')"
  by code_simp

text \<open>
  Claim C7.  For a ticket whose title and description are strings, the rule-based
  fallback assigns the agent of the first keyword set, in the order Knowledge, Automation,
  Escalation, Analytics, one of whose words occurs in the title followed by the
  description, capitals and small letters taken as the same, and Escalation when no set
  matches; the confidence is the constant 0.85.  \<open>spec_fallback_agent\<close> is that policy,
  stated with a table of the letters and without the code's lower-casing; the code's
  \<^verbatim>\<open>if/elif\<close> chain on the lower-cased text computes the same agent.  The ticket of
  scenario A is assigned Knowledge with confidence 0.85.
\<close>

theorem fallback_keyword_policy:
  assumes "py_getitem ticket ''title'' = Inr (VStr title)"
    and "py_getitem ticket ''description'' = Inr (VStr description)"
    and "py_getitem ticket ''id'' = Inr tid"
  shows "result_item (fallback_classification ticket) ''assigned_agent''
           = Inr (VStr (spec_fallback_agent title description))
       \<and> (\<exists>c. result_item (fallback_classification ticket) ''classification'' = Inr (VDict c)
              \<and> py_getitem c ''agent'' = Inr (VStr (spec_fallback_agent title description))
              \<and> py_getitem c ''confidence'' = Inr (VFloat (85 / 100)))
       \<and> result_item (fallback_classification ticket_A) ''assigned_agent'' = Inr (VStr ''Knowledge'')
       \<and> (\<exists>c. result_item (fallback_classification ticket_A) ''classification'' = Inr (VDict c)
              \<and> py_getitem c ''confidence'' = Inr (VFloat (85 / 100)))"
proof -
  have A: "fst (fallback_rule (str_lower ''How do I configure SSL?''
             @ str_lower ''need documentation for certificate setup'')) = ''Knowledge''"
    by code_simp
  have tA: "py_getitem ticket_A ''title'' = Inr (VStr ''How do I configure SSL?'')"
    "py_getitem ticket_A ''description'' = Inr (VStr ''need documentation for certificate setup'')"
    "py_getitem ticket_A ''id'' = Inr (VStr ''TKT-A'')"
    by (simp_all add: ticket_A_def py_getitem_def)
  show ?thesis
    unfolding fallback_classification_wf [OF assms] fallback_classification_wf [OF tA] A
    by (simp add: result_item_def py_getitem_def fallback_rule_spec)
qed

lemma ticket_G_items:
  "py_getitem ticket_G ''title'' = Inr (VStr ''DEPLOY failed again'')"
  "py_getitem ticket_G ''description'' = Inr (VStr ''The Pipeline stops at the second stage'')"
  "py_getitem ticket_G ''id'' = Inr (VStr ''TKT-G'')"
  by (simp_all add: ticket_G_def py_getitem_def)

theorem fallback_keyword_policy_witness:
  "py_getitem ticket_G ''title'' = Inr (VStr ''DEPLOY failed again'')
   \<and> py_getitem ticket_G ''description'' = Inr (VStr ''The Pipeline stops at the second stage'')
   \<and> py_getitem ticket_G ''id'' = Inr (VStr ''TKT-G'')
   \<and> spec_fallback_agent ''DEPLOY failed again'' ''The Pipeline stops at the second stage''
        = ''Automation''
   \<and> result_item (fallback_classification ticket_G) ''assigned_agent'' = Inr (VStr ''Automation'')"
proof -
  have s: "spec_fallback_agent ''DEPLOY failed again'' ''The Pipeline stops at the second stage''
        = ''Automation''"
    by code_simp
  from fallback_keyword_policy [OF ticket_G_items] ticket_G_items s show ?thesis by simp
qed

text \<open>
  Claim C10.  Whatever the ticket, a result of the rule-based fallback names one of the
  four agents Knowledge, Automation, Escalation, Analytics, at top level and inside its
  classification; Learning is never assigned by the fallback.
\<close>

theorem fallback_never_learning:
  assumes "fallback_classification ticket = Inr r"
  shows "(\<exists>a. a \<in> set [''Knowledge'', ''Automation'', ''Escalation'', ''Analytics'']
            \<and> py_getitem r ''assigned_agent'' = Inr (VStr a)
            \<and> (\<exists>c. py_getitem r ''classification'' = Inr (VDict c)
                   \<and> py_getitem c ''agent'' = Inr (VStr a)))
       \<and> py_getitem r ''assigned_agent'' \<noteq> Inr (VStr ''Learning'')"
proof -
  from fallback_classification_Inr [OF assms] obtain title description tid where
    wf: "py_getitem ticket ''title'' = Inr (VStr title)"
        "py_getitem ticket ''description'' = Inr (VStr description)"
        "py_getitem ticket ''id'' = Inr tid" by blast
  let ?a = "fst (fallback_rule (str_lower title @ str_lower description))"
  have a: "?a \<in> {''Knowledge'', ''Automation'', ''Escalation'', ''Analytics''}"
    by (rule fallback_rule_agent)
  from assms fallback_classification_wf [OF wf] have r: "r = [(''ticket_id'', tid),
          (''classification'', VDict
             [(''agent'', VStr ?a),
              (''category'', py_get ticket ''category'' (VStr ''General'')),
              (''priority'', py_get ticket ''priority'' (VStr ''Medium'')),
              (''confidence'', VFloat (85 / 100)),
              (''resolution_time'', VStr (snd (fallback_rule (str_lower title @ str_lower description)))),
              (''reasoning'', VStr ''Fallback rule-based classification'')]),
          (''assigned_agent'', VStr ?a),
          (''processing_time'', VStr ''1.2s''),
          (''azure_service'', VStr ''Fallback (Local Rules)'')]" by simp
  have 1: "py_getitem r ''assigned_agent'' = Inr (VStr ?a)" by (simp add: r py_getitem_def)
  have 2: "py_getitem r ''classification'' = Inr (VDict
             [(''agent'', VStr ?a),
              (''category'', py_get ticket ''category'' (VStr ''General'')),
              (''priority'', py_get ticket ''priority'' (VStr ''Medium'')),
              (''confidence'', VFloat (85 / 100)),
              (''resolution_time'', VStr (snd (fallback_rule (str_lower title @ str_lower description)))),
              (''reasoning'', VStr ''Fallback rule-based classification'')])" by (simp add: r py_getitem_def)
  from a have 3: "?a \<noteq> ''Learning''" by auto
  from a have 4: "?a \<in> set [''Knowledge'', ''Automation'', ''Escalation'', ''Analytics'']" by simp
  show ?thesis
    using 1 2 3 4 by (auto simp add: py_getitem_def)
qed

theorem fallback_never_learning_witness:
  "\<exists>r. fallback_classification ticket_A = Inr r
      \<and> py_getitem r ''assigned_agent'' = Inr (VStr ''Knowledge'')
      \<and> py_getitem r ''assigned_agent'' \<noteq> Inr (VStr ''Learning'')"
proof -
  from fallback_classification_wf [OF ticket_A_items] obtain r where
    r: "fallback_classification ticket_A = Inr r"
       "py_getitem r ''assigned_agent'' = Inr (VStr ''Knowledge'')"
    by (simp add: scenario_A_rule py_getitem_def)
  from fallback_never_learning [OF r(1)] r show ?thesis by blast
qed

lemma classify_primary_Inr:
  assumes "classify_primary json_loads elapsed model response ticket = Inr res"
  shows "\<exists>tid c m. py_getitem ticket ''id'' = Inr tid
     \<and> parse_classification_response json_loads (content response) = VDict c
     \<and> model = Inr m
     \<and> res = [(''ticket_id'', tid),
             (''classification'', VDict c),
             (''confidence'', py_get c ''confidence'' (VFloat (95 / 100))),
             (''assigned_agent'', py_get c ''agent'' (VStr ''Escalation'')),
             (''priority'', py_get c ''priority'' (py_get ticket ''priority'' (VStr ''Medium''))),
             (''estimated_resolution_time'', py_get c ''resolution_time'' (VStr ''120s'')),
             (''processing_time'', VStr (fmt_1f elapsed @ ''s'')),
             (''azure_service'', VStr (''Azure OpenAI '' @ m)),
             (''token_usage'', VDict
                [(''prompt_tokens'', prompt_tokens response),
                 (''completion_tokens'', completion_tokens response),
                 (''total_tokens'', total_tokens response)])]"
  using assms
  by (auto simp add: classify_primary_def Let_def py_bind_Inr_iff py_get_method_Inr_iff)

lemma classify_primary_dict:
  assumes "py_getitem ticket ''id'' = Inr tid"
    and "parse_classification_response json_loads (content response) = VDict c"
  shows "classify_primary json_loads elapsed (Inr m) response ticket =
       Inr [(''ticket_id'', tid),
             (''classification'', VDict c),
             (''confidence'', py_get c ''confidence'' (VFloat (95 / 100))),
             (''assigned_agent'', py_get c ''agent'' (VStr ''Escalation'')),
             (''priority'', py_get c ''priority'' (py_get ticket ''priority'' (VStr ''Medium''))),
             (''estimated_resolution_time'', py_get c ''resolution_time'' (VStr ''120s'')),
             (''processing_time'', VStr (fmt_1f elapsed @ ''s'')),
             (''azure_service'', VStr (''Azure OpenAI '' @ m)),
             (''token_usage'', VDict
                [(''prompt_tokens'', prompt_tokens response),
                 (''completion_tokens'', completion_tokens response),
                 (''total_tokens'', total_tokens response)])]"
  using assms by (simp add: classify_primary_def Let_def)

lemma parse_no_json:
  assumes "no_parseable_json json_loads text"
  shows "parse_classification_response json_loads (VStr text) = VDict parse_error_classification"
  using assms
  by (auto simp add: no_parseable_json_def Let_def split: if_splits sum.splits)

text \<open>
  Claim C6.  When the call to the completion service raises, \<^verbatim>\<open>classify_ticket\<close> returns
  the result of the rule-based fallback: its service tag is \<^verbatim>\<open>Fallback (Local Rules)\<close> and
  its assigned agent is one of the five agent names.
\<close>

theorem classify_backend_raises:
  assumes "create ticket = Inl e"
    and "py_getitem ticket ''title'' = Inr (VStr title)"
    and "py_getitem ticket ''description'' = Inr (VStr description)"
    and "py_getitem ticket ''id'' = Inr tid"
  shows "classify_ticket create json_loads elapsed model ticket = fallback_classification ticket
       \<and> result_item (classify_ticket create json_loads elapsed model ticket) ''azure_service''
           = Inr (VStr ''Fallback (Local Rules)'')
       \<and> (\<exists>a. a \<in> set [''Knowledge'', ''Automation'', ''Escalation'', ''Learning'', ''Analytics'']
              \<and> result_item (classify_ticket create json_loads elapsed model ticket) ''assigned_agent''
                  = Inr (VStr a))"
proof -
  have c: "classify_ticket create json_loads elapsed model ticket = fallback_classification ticket"
    using assms(1) by (simp add: classify_ticket_def)
  have a: "fst (fallback_rule (str_lower title @ str_lower description))
             \<in> set [''Knowledge'', ''Automation'', ''Escalation'', ''Learning'', ''Analytics'']"
    using fallback_rule_agent [of "str_lower title @ str_lower description"] by auto
  show ?thesis
    unfolding c fallback_classification_wf [OF assms(2-4)]
    using a by (simp add: result_item_def py_getitem_def)
qed

theorem classify_backend_raises_witness:
  "create_raises ticket_A = Inl (Exception ''Connection error.'')
   \<and> py_getitem ticket_A ''title'' = Inr (VStr ''How do I configure SSL?'')
   \<and> py_getitem ticket_A ''description'' = Inr (VStr ''need documentation for certificate setup'')
   \<and> py_getitem ticket_A ''id'' = Inr (VStr ''TKT-A'')
   \<and> result_item (classify_ticket create_raises json_loads_reject (3 / 2) (Inr ''gpt-4'') ticket_A)
        ''azure_service'' = Inr (VStr ''Fallback (Local Rules)'')"
proof -
  have h: "create_raises ticket_A = Inl (Exception ''Connection error.'')"
    by (simp add: create_raises_def)
  from classify_backend_raises [where create = create_raises and ticket = ticket_A
      and json_loads = json_loads_reject and elapsed = "3 / 2" and model = "Inr ''gpt-4''",
      OF h ticket_A_items] h ticket_A_items
  show ?thesis by blast
qed

text \<open>
  Claim C9.  The fallback record has exactly the keys \<^verbatim>\<open>ticket_id\<close>, \<^verbatim>\<open>classification\<close>,
  \<^verbatim>\<open>assigned_agent\<close>, \<^verbatim>\<open>processing_time\<close>, \<^verbatim>\<open>azure_service\<close>; reading
  \<^verbatim>\<open>confidence\<close>, \<^verbatim>\<open>priority\<close>, \<^verbatim>\<open>estimated_resolution_time\<close> or \<^verbatim>\<open>token_usage\<close> from
  it raises \<^verbatim>\<open>KeyError\<close>.  It is what \<^verbatim>\<open>classify_ticket\<close> returns whenever the call or
  a later statement of the \<^verbatim>\<open>try\<close> block raises.  Every record of the primary path has
  the nine keys of \<open>primary_keys\<close>, those four among them.
\<close>

theorem fallback_record_shape:
  assumes "py_getitem ticket ''title'' = Inr (VStr title)"
    and "py_getitem ticket ''description'' = Inr (VStr description)"
    and "py_getitem ticket ''id'' = Inr tid"
  shows "\<exists>fb. fallback_classification ticket = Inr fb
       \<and> py_keys fb = fallback_keys
       \<and> list_all (\<lambda>k. py_getitem fb k = Inl (KeyError k)) primary_only_keys
       \<and> (\<forall>e. create ticket = Inl e \<longrightarrow>
             classify_ticket create json_loads elapsed model ticket = Inr fb)
       \<and> (\<forall>response e. create ticket = Inr response
               \<and> classify_primary json_loads elapsed model response ticket = Inl e \<longrightarrow>
             classify_ticket create json_loads elapsed model ticket = Inr fb)
       \<and> (\<forall>response res. classify_primary json_loads elapsed model response ticket = Inr res \<longrightarrow>
             py_keys res = primary_keys
             \<and> list_all (\<lambda>k. \<exists>v. py_getitem res k = Inr v) primary_only_keys)"
proof -
  note fb = fallback_classification_wf [OF assms]
  have prim: "py_keys res = primary_keys
             \<and> list_all (\<lambda>k. \<exists>v. py_getitem res k = Inr v) primary_only_keys"
    if "classify_primary json_loads elapsed model response ticket = Inr res" for response res
    using classify_primary_Inr [OF that]
    by (auto simp add: py_keys_def fallback_keys_def primary_keys_def primary_only_keys_def py_getitem_def)
  show ?thesis
    unfolding fb
    using prim
    by (simp add: classify_ticket_def py_keys_def fallback_keys_def primary_keys_def primary_only_keys_def py_getitem_def fb)
qed

theorem fallback_record_shape_witness:
  "py_getitem ticket_A ''title'' = Inr (VStr ''How do I configure SSL?'')
   \<and> py_getitem ticket_A ''description'' = Inr (VStr ''need documentation for certificate setup'')
   \<and> py_getitem ticket_A ''id'' = Inr (VStr ''TKT-A'')
   \<and> create_raises ticket_A = Inl (Exception ''Connection error.'')
   \<and> (\<exists>fb. classify_ticket create_raises json_loads_reject (3 / 2) (Inr ''gpt-4'') ticket_A = Inr fb
          \<and> py_keys fb = fallback_keys
          \<and> py_getitem fb ''confidence'' = Inl (KeyError ''confidence''))"
proof -
  have h: "create_raises ticket_A = Inl (Exception ''Connection error.'')"
    by (simp add: create_raises_def)
  from fallback_record_shape [where create = create_raises and ticket = ticket_A
      and json_loads = json_loads_reject and elapsed = "3 / 2" and model = "Inr ''gpt-4''",
      OF ticket_A_items]
  obtain fb where fb: "fallback_classification ticket_A = Inr fb" "py_keys fb = fallback_keys"
      "list_all (\<lambda>k. py_getitem fb k = Inl (KeyError k)) primary_only_keys"
      "\<forall>e. create_raises ticket_A = Inl e \<longrightarrow>
             classify_ticket create_raises json_loads_reject (3 / 2) (Inr ''gpt-4'') ticket_A = Inr fb"
    by blast
  from fb(4) h have 1: "classify_ticket create_raises json_loads_reject (3 / 2) (Inr ''gpt-4'') ticket_A = Inr fb"
    by blast
  from fb(3) have 2: "py_getitem fb ''confidence'' = Inl (KeyError ''confidence'')"
    by (simp add: primary_only_keys_def)
  from 1 2 fb(2) h ticket_A_items show ?thesis by blast
qed

lemma create_plain_text_parse:
  "no_parseable_json json_loads_reject ''I am unable to classify this ticket.''"
  by (simp add: no_parseable_json_def py_find_def py_rfind_def)

text \<open>
  Claim C3 fails as stated.  For the ticket of scenario A and a response without any
  brace, \<^verbatim>\<open>classify_ticket\<close> returns a primary record (service \<^verbatim>\<open>Azure OpenAI gpt-4\<close>)
  with agent Escalation, where the rule-based fallback would tag the result
  \<^verbatim>\<open>Fallback (Local Rules)\<close> and assign Knowledge.
\<close>

theorem unparseable_response_counterexample:
  "result_item (classify_ticket create_plain_text json_loads_reject (3 / 2) (Inr ''gpt-4'') ticket_A)
       ''azure_service'' = Inr (VStr ''Azure OpenAI gpt-4'')
   \<and> result_item (classify_ticket create_plain_text json_loads_reject (3 / 2) (Inr ''gpt-4'') ticket_A)
       ''assigned_agent'' = Inr (VStr ''Escalation'')
   \<and> result_item (fallback_classification ticket_A) ''azure_service'' = Inr (VStr ''Fallback (Local Rules)'')
   \<and> result_item (fallback_classification ticket_A) ''assigned_agent'' = Inr (VStr ''Knowledge'')
   \<and> classify_ticket create_plain_text json_loads_reject (3 / 2) (Inr ''gpt-4'') ticket_A
       \<noteq> fallback_classification ticket_A"
proof -
  have p: "parse_classification_response json_loads_reject
             (content \<lparr>content = VStr ''I am unable to classify this ticket.'',
                prompt_tokens = VInt 212, completion_tokens = VInt 9, total_tokens = VInt 221\<rparr>)
             = VDict parse_error_classification"
    using parse_no_json [OF create_plain_text_parse] by simp
  have c: "classify_ticket create_plain_text json_loads_reject (3 / 2) (Inr ''gpt-4'') ticket_A
     = Inr [(''ticket_id'', VStr ''TKT-A''),
             (''classification'', VDict parse_error_classification),
             (''confidence'', VFloat (8 / 10)),
             (''assigned_agent'', VStr ''Escalation''),
             (''priority'', VStr ''Medium''),
             (''estimated_resolution_time'', VStr ''120s''),
             (''processing_time'', VStr (fmt_1f (3 / 2) @ ''s'')),
             (''azure_service'', VStr ''Azure OpenAI gpt-4''),
             (''token_usage'', VDict
                [(''prompt_tokens'', VInt 212),
                 (''completion_tokens'', VInt 9),
                 (''total_tokens'', VInt 221)])]"
    by (simp add: classify_ticket_def create_plain_text_def
          classify_primary_dict [OF ticket_A_items(3) p] parse_error_classification_def py_get_def)
  show ?thesis
    unfolding c fallback_classification_wf [OF ticket_A_items] scenario_A_rule
    by (simp add: result_item_def py_getitem_def)
qed

text \<open>
  Claim C3, amended.  When the response has no \<^verbatim>\<open>{...}\<close> span, or \<^verbatim>\<open>json.loads\<close> rejects
  the span, \<^verbatim>\<open>_parse_classification_response\<close> returns its fixed dictionary (agent
  Escalation, category Unknown, priority Medium, confidence 0.8, resolution time 120s)
  and \<^verbatim>\<open>classify_ticket\<close> builds the primary record from it: the rule-based fallback is
  not called and the record is tagged with the Azure OpenAI model.
\<close>

theorem unparseable_response_default:
  assumes "create ticket = Inr response"
    and "content response = VStr text"
    and "no_parseable_json json_loads text"
    and "py_getitem ticket ''id'' = Inr tid"
  shows "parse_classification_response json_loads (content response) = VDict parse_error_classification
       \<and> classify_ticket create json_loads elapsed (Inr model_name) ticket =
           Inr [(''ticket_id'', tid),
                (''classification'', VDict parse_error_classification),
                (''confidence'', VFloat (8 / 10)),
                (''assigned_agent'', VStr ''Escalation''),
                (''priority'', VStr ''Medium''),
                (''estimated_resolution_time'', VStr ''120s''),
                (''processing_time'', VStr (fmt_1f elapsed @ ''s'')),
                (''azure_service'', VStr (''Azure OpenAI '' @ model_name)),
                (''token_usage'', VDict
                   [(''prompt_tokens'', prompt_tokens response),
                    (''completion_tokens'', completion_tokens response),
                    (''total_tokens'', total_tokens response)])]"
proof -
  have p: "parse_classification_response json_loads (content response) = VDict parse_error_classification"
    using parse_no_json [OF assms(3)] assms(2) by simp
  show ?thesis
    using assms(1) p
    by (simp add: classify_ticket_def classify_primary_dict [OF assms(4) p]
          parse_error_classification_def py_get_def)
qed

theorem unparseable_response_default_witness:
  "create_plain_text ticket_A = Inr \<lparr>content = VStr ''I am unable to classify this ticket.'',
          prompt_tokens = VInt 212, completion_tokens = VInt 9, total_tokens = VInt 221\<rparr>
   \<and> no_parseable_json json_loads_reject ''I am unable to classify this ticket.''
   \<and> py_getitem ticket_A ''id'' = Inr (VStr ''TKT-A'')
   \<and> result_item (classify_ticket create_plain_text json_loads_reject (3 / 2) (Inr ''gpt-4'') ticket_A)
        ''confidence'' = Inr (VFloat (8 / 10))"
proof -
  have h: "create_plain_text ticket_A = Inr \<lparr>content = VStr ''I am unable to classify this ticket.'',
          prompt_tokens = VInt 212, completion_tokens = VInt 9, total_tokens = VInt 221\<rparr>"
    by (simp add: create_plain_text_def)
  have c: "content \<lparr>content = VStr ''I am unable to classify this ticket.'',
          prompt_tokens = VInt 212, completion_tokens = VInt 9, total_tokens = VInt 221\<rparr>
      = VStr ''I am unable to classify this ticket.''" by simp
  from unparseable_response_default [where create = create_plain_text and ticket = ticket_A
      and json_loads = json_loads_reject and elapsed = "3 / 2" and model_name = "''gpt-4''",
      OF h c create_plain_text_parse ticket_A_items(3)]
  have "result_item (classify_ticket create_plain_text json_loads_reject (3 / 2) (Inr ''gpt-4'') ticket_A)
        ''confidence'' = Inr (VFloat (8 / 10))"
    by (simp add: result_item_def py_getitem_def)
  with h create_plain_text_parse ticket_A_items(3) show ?thesis by blast
qed

lemma agent_only_parse:
  \<open>parse_classification_response json_loads_agent_only (VStr ''{"agent": "Knowledge"}'')
     = VDict [(''agent'', VStr ''Knowledge'')]\<close>
  by (simp add: py_find_def py_rfind_def py_slice_def json_loads_agent_only_def)

lemma agent_only_parse_content:
  \<open>parse_classification_response json_loads_agent_only
       (content \<lparr>content = VStr ''{"agent": "Knowledge"}'',
          prompt_tokens = VInt 212, completion_tokens = VInt 8, total_tokens = VInt 220\<rparr>)
     = VDict [(''agent'', VStr ''Knowledge'')]\<close>
  using agent_only_parse by simp

text \<open>
  Claim C4 fails as stated.  For the response \<^verbatim>\<open>{"agent": "Knowledge"}\<close>, which has no
  confidence, the record's confidence is 0.95, not 0.8, and the classification inside
  the record is the parsed object as it came.
\<close>

theorem missing_confidence_counterexample:
  "result_item (classify_ticket create_agent_only json_loads_agent_only (3 / 2) (Inr ''gpt-4'') ticket_A)
       ''confidence'' = Inr (VFloat (95 / 100))
   \<and> result_item (classify_ticket create_agent_only json_loads_agent_only (3 / 2) (Inr ''gpt-4'') ticket_A)
       ''confidence'' \<noteq> Inr (VFloat (8 / 10))
   \<and> result_item (classify_ticket create_agent_only json_loads_agent_only (3 / 2) (Inr ''gpt-4'') ticket_A)
       ''classification'' = Inr (VDict [(''agent'', VStr ''Knowledge'')])"
  by (simp add: classify_ticket_def create_agent_only_def
        classify_primary_dict [OF ticket_A_items(3) agent_only_parse_content] py_get_def
        result_item_def py_getitem_def)

text \<open>
  Claim C4, amended.  When the call succeeds and the parsed object is a dictionary, the
  record is tagged as primary; its \<^verbatim>\<open>assigned_agent\<close> is the object's \<^verbatim>\<open>agent\<close>, or
  Escalation when that is missing, and its \<^verbatim>\<open>confidence\<close> is the object's, or 0.95 when
  that is missing.
\<close>

theorem missing_field_defaults:
  assumes "create ticket = Inr response"
    and "parse_classification_response json_loads (content response) = VDict c"
    and "py_getitem ticket ''id'' = Inr tid"
  shows "\<exists>r. classify_ticket create json_loads elapsed (Inr model_name) ticket = Inr r
       \<and> py_getitem r ''azure_service'' = Inr (VStr (''Azure OpenAI '' @ model_name))
       \<and> py_getitem r ''classification'' = Inr (VDict c)
       \<and> py_getitem r ''assigned_agent'' = Inr (py_get c ''agent'' (VStr ''Escalation''))
       \<and> py_getitem r ''confidence'' = Inr (py_get c ''confidence'' (VFloat (95 / 100)))
       \<and> (map_of c ''agent'' = None \<longrightarrow> py_getitem r ''assigned_agent'' = Inr (VStr ''Escalation''))
       \<and> (map_of c ''confidence'' = None \<longrightarrow> py_getitem r ''confidence'' = Inr (VFloat (95 / 100)))"
  using assms(1)
  by (simp add: classify_ticket_def classify_primary_dict [OF assms(3) assms(2)] py_getitem_def py_get_def)

theorem missing_field_defaults_witness:
  \<open>create_agent_only ticket_A = Inr \<lparr>content = VStr ''{"agent": "Knowledge"}'',
          prompt_tokens = VInt 212, completion_tokens = VInt 8, total_tokens = VInt 220\<rparr>
   \<and> parse_classification_response json_loads_agent_only (VStr ''{"agent": "Knowledge"}'')
        = VDict [(''agent'', VStr ''Knowledge'')]
   \<and> py_getitem ticket_A ''id'' = Inr (VStr ''TKT-A'')
   \<and> map_of [(''agent'', VStr ''Knowledge'')] ''confidence'' = None
   \<and> (\<exists>r. classify_ticket create_agent_only json_loads_agent_only (3 / 2) (Inr ''gpt-4'') ticket_A = Inr r
          \<and> py_getitem r ''confidence'' = Inr (VFloat (95 / 100))
          \<and> py_getitem r ''assigned_agent'' = Inr (VStr ''Knowledge''))\<close>
proof -
  have h: \<open>create_agent_only ticket_A = Inr \<lparr>content = VStr ''{"agent": "Knowledge"}'',
          prompt_tokens = VInt 212, completion_tokens = VInt 8, total_tokens = VInt 220\<rparr>\<close>
    by (simp add: create_agent_only_def)
  have p: \<open>parse_classification_response json_loads_agent_only
       (content \<lparr>content = VStr ''{"agent": "Knowledge"}'',
          prompt_tokens = VInt 212, completion_tokens = VInt 8, total_tokens = VInt 220\<rparr>)
        = VDict [(''agent'', VStr ''Knowledge'')]\<close>
    using agent_only_parse by simp
  have m: "map_of [(''agent'', VStr ''Knowledge'')] ''confidence'' = None" by simp
  from missing_field_defaults [where create = create_agent_only and ticket = ticket_A
      and json_loads = json_loads_agent_only and elapsed = "3 / 2" and model_name = "''gpt-4''",
      OF h p ticket_A_items(3)] m
  have "\<exists>r. classify_ticket create_agent_only json_loads_agent_only (3 / 2) (Inr ''gpt-4'') ticket_A = Inr r
          \<and> py_getitem r ''confidence'' = Inr (VFloat (95 / 100))
          \<and> py_getitem r ''assigned_agent'' = Inr (VStr ''Knowledge'')"
    by (auto simp add: py_get_def)
  with h agent_only_parse ticket_A_items(3) m show ?thesis by blast
qed

section \<open>Properties of the knowledge agent\<close>

lemma extract_key_terms_str:
  "extract_key_terms (VStr d) = Inr (take 5 (filter (\<lambda>term. sublist term (str_lower d)) technical_terms))"
  by (simp add: extract_key_terms_def)

lemma build_search_query_wf:
  assumes "py_getitem ticket ''title'' = Inr (VStr title)"
    and "py_getitem ticket ''description'' = Inr (VStr description)"
  shows "build_search_query ticket =
     Inr (str_join '' '' (title # take 5 (filter (\<lambda>term. sublist term (str_lower description)) technical_terms)))"
  using assms by (simp add: build_search_query_def extract_key_terms_str)

lemma fallback_search_length:
  assumes "fallback_search ticket = Inr r"
  shows "length r = 7"
  using assms by (auto simp add: fallback_search_def Let_def py_bind_Inr_iff)



lemma vocabulary_letters:
  assumes "k \<in> set spec_vocabulary"
  shows "set k \<subseteq> set ''abcdefghijklmnopqrstuvwxyz''"
  using assms by (auto simp add: spec_vocabulary_def)

lemma vocabulary_filter:
  "filter (\<lambda>term. sublist term (str_lower description)) technical_terms
     = filter (\<lambda>term. occurs_ignoring_case term description) spec_vocabulary"
proof -
  have v: "technical_terms = spec_vocabulary"
    by (simp add: technical_terms_def spec_vocabulary_def)
  show ?thesis
    unfolding v
    by (rule filter_cong) (simp_all add: sublist_lower_iff [OF vocabulary_letters])
qed

lemma ticket_C_items:
  "py_getitem ticket_C ''title'' = Inr (VStr ''Printer is jammed'')"
  "py_getitem ticket_C ''description'' = Inr (VStr ''The office printer on floor 2 keeps jamming'')"
  "py_getitem ticket_C ''id'' = Inr (VStr ''TKT-C'')"
  by (simp_all add: ticket_C_def py_getitem_def)



lemma example_terms:
  "take 5 (filter (\<lambda>term. occurs_ignoring_case term ''The office printer on floor 2 keeps jamming'')
     spec_vocabulary) = []"
  "take 5 (filter (\<lambda>term. occurs_ignoring_case term ''Redis ERROR after the SSL renewal'')
     spec_vocabulary) = [''ssl'', ''redis'', ''error'']"
  "take 5 (filter (\<lambda>term. occurs_ignoring_case term
     ''API timeout, database error, HTTPS certificate, deployment configuration'')
     spec_vocabulary) = [''https'', ''certificate'', ''deployment'', ''configuration'', ''database'']"
  by code_simp+



text \<open>
  Claim C5.  When the search answers with no result, \<^verbatim>\<open>search_knowledge\<close> returns the
  record of the primary path: tagged \<^verbatim>\<open>AI Search Semantic\<close>, no result found, an empty
  result list, \<^verbatim>\<open>best_match\<close> \<^verbatim>\<open>None\<close> and relevance 0.0.  This is not what the fallback
  returns for the ticket, whose record never carries that tag.
\<close>

theorem empty_search_is_primary:
  assumes "build_search_query ticket = Inr query"
    and "search query = Inr []"
    and "py_getitem ticket ''id'' = Inr tid"
  shows "search_knowledge search ticket =
           Inr [(''ticket_id'', tid),
                (''search_query'', VStr query),
                (''results_found'', VInt 0),
                (''best_match'', VNone),
                (''all_results'', VList []),
                (''relevance_score'', VFloat 0),
                (''processing_time'', VStr ''1.8s''),
                (''azure_service'', VStr ''AI Search Semantic'')]
       \<and> search_knowledge search ticket \<noteq> fallback_search ticket
       \<and> result_item (fallback_search ticket) ''azure_service'' \<noteq> Inr (VStr ''AI Search Semantic'')"
proof -
  have 1: "search_knowledge search ticket =
           Inr [(''ticket_id'', tid),
                (''search_query'', VStr query),
                (''results_found'', VInt 0),
                (''best_match'', VNone),
                (''all_results'', VList []),
                (''relevance_score'', VFloat 0),
                (''processing_time'', VStr ''1.8s''),
                (''azure_service'', VStr ''AI Search Semantic'')]"
    using assms by (simp add: search_knowledge_def search_primary_def)
  have 2: "search_knowledge search ticket \<noteq> fallback_search ticket"
  proof
    assume "search_knowledge search ticket = fallback_search ticket"
    with 1 have "fallback_search ticket = Inr [(''ticket_id'', tid),
                (''search_query'', VStr query),
                (''results_found'', VInt 0),
                (''best_match'', VNone),
                (''all_results'', VList []),
                (''relevance_score'', VFloat 0),
                (''processing_time'', VStr ''1.8s''),
                (''azure_service'', VStr ''AI Search Semantic'')]" by simp
    from fallback_search_length [OF this] show False by simp
  qed
  have 3: "result_item (fallback_search ticket) ''azure_service'' \<noteq> Inr (VStr ''AI Search Semantic'')"
    by (auto simp add: fallback_search_def Let_def result_item_def py_bind_Inr_iff py_getitem_def)
  from 1 2 3 show ?thesis by blast
qed

theorem empty_search_is_primary_witness:
  "build_search_query ticket_C = Inr ''Printer is jammed''
   \<and> search_empty ''Printer is jammed'' = Inr []
   \<and> py_getitem ticket_C ''id'' = Inr (VStr ''TKT-C'')
   \<and> result_item (search_knowledge search_empty ticket_C) ''best_match'' = Inr VNone
   \<and> result_item (search_knowledge search_empty ticket_C) ''azure_service''
        = Inr (VStr ''AI Search Semantic'')"
proof -
  have q: "build_search_query ticket_C = Inr ''Printer is jammed''"
    using build_search_query_wf [OF ticket_C_items(1,2), unfolded vocabulary_filter example_terms(1)]
    by simp
  have s: "search_empty ''Printer is jammed'' = Inr []" by (simp add: search_empty_def)
  from empty_search_is_primary [where search = search_empty, OF q s ticket_C_items(3)]
  have "result_item (search_knowledge search_empty ticket_C) ''best_match'' = Inr VNone
   \<and> result_item (search_knowledge search_empty ticket_C) ''azure_service''
        = Inr (VStr ''AI Search Semantic'')"
    by (simp add: result_item_def py_getitem_def)
  with q s ticket_C_items(3) show ?thesis by blast
qed

section \<open>Properties of the coordinator\<close>






subsection \<open>The runs of the examples\<close>











text \<open>The text of a \<^verbatim>\<open>KeyError\<close>: the key in apostrophes, or in double quotes when it holds one.\<close>

lemma str_exn_examples:
  "str_exn (KeyError ''id'') = [CHR 0x27, CHR ''i'', CHR ''d'', CHR 0x27]"
  "str_exn (KeyError [CHR ''i'', CHR ''t'', CHR 0x27, CHR ''s''])
     = [CHR 0x22, CHR ''i'', CHR ''t'', CHR 0x27, CHR ''s'', CHR 0x22]"
  "str_exn (AttributeError ''NoneType'' ''lower'')
     = [CHR 0x27] @ ''NoneType'' @ [CHR 0x27] @ '' object has no attribute '' @ [CHR 0x27] @ ''lower'' @ [CHR 0x27]"
  by code_simp+

subsection \<open>A routed agent that raises\<close>




subsection \<open>The total time\<close>





end
